theory Spec2Isabelle
  imports Complex_Main
begin

section \<open>Gap conductance: the material of GapConductance.C\<close>

text \<open>
  A shallow embedding of \<^verbatim>\<open>modules/heat_conduction/src/materials/GapConductance.C\<close>.
  The C++ type \<^verbatim>\<open>Real\<close> (an IEEE double) is modelled by the real numbers: rounding,
  overflow and signed zeros are outside the model. Where the source's control flow
  depends on a NaN (a quotient \<^verbatim>\<open>0/0\<close> feeding a comparison) the model has a branch
  of its own for it, described where it occurs. A call of \<^verbatim>\<open>mooseError\<close> ends the
  run; it is the \<open>Inl\<close> of a sum type. Reference parameters that a function assigns
  are returned as a tuple.
\<close>

subsection \<open>Points (libMesh \<^verbatim>\<open>Point\<close>, three \<^verbatim>\<open>Real\<close> coordinates)\<close>

datatype Point = Point real real real

fun pt_add :: "Point \<Rightarrow> Point \<Rightarrow> Point" where
  "pt_add (Point a b c) (Point d e f) = Point (a + d) (b + e) (c + f)"

fun pt_sub :: "Point \<Rightarrow> Point \<Rightarrow> Point" where
  "pt_sub (Point a b c) (Point d e f) = Point (a - d) (b - e) (c - f)"

text \<open>\<^verbatim>\<open>operator*\<close> between two points is the dot product; between a scalar and a
  point it scales.\<close>

fun pt_dot :: "Point \<Rightarrow> Point \<Rightarrow> real" where
  "pt_dot (Point a b c) (Point d e f) = a * d + b * e + c * f"

fun pt_scale :: "real \<Rightarrow> Point \<Rightarrow> Point" where
  "pt_scale k (Point a b c) = Point (k * a) (k * b) (k * c)"

fun pt_div :: "Point \<Rightarrow> real \<Rightarrow> Point" where
  "pt_div (Point a b c) k = Point (a / k) (b / k) (c / k)"

definition norm_sq :: "Point \<Rightarrow> real" where
  "norm_sq v = pt_dot v v"

definition pt_norm :: "Point \<Rightarrow> real" where
  "pt_norm v = sqrt (norm_sq v)"

subsection \<open>Enumerations and fatal errors\<close>

datatype GAP_GEOMETRY = PLATE | CYLINDER | SPHERE

datatype CoordinateSystemType = COORD_XYZ | COORD_RZ | COORD_RSPHERICAL

text \<open>One constructor per \<^verbatim>\<open>mooseError\<close> of the file, in the order of the source, and
  one for a failed range check of the parameter system.\<close>

datatype moose_error =
    RangeCheckFailed "string list"
  | NoPairedBoundary
  | NoGapDistance
  | NoGapTemp
  | PlateSpherical
  | CylinderCartesianNeedsAxis
  | CylinderAxisymmetricAxisGiven
  | CylinderSpherical
  | SphereNeedsOrigin
  | SphereSphericalOriginGiven
  | CylindricalNormals
  | SphericalNormals

subsection \<open>Effective gap length (static functions)\<close>

text \<open>
  Each of the three functions ends in \<^verbatim>\<open>std::max(min, std::min(x, max))\<close>. On the
  real numbers \<^verbatim>\<open>std::max\<close> and \<^verbatim>\<open>std::min\<close> are \<open>max\<close> and \<open>min\<close>. The quotients
  and the logarithm are those of the reals: where a divisor is zero or the argument
  of the logarithm is not positive, the C++ value is an infinity or a NaN, which this
  model does not represent.
\<close>

definition gapRect :: "real \<Rightarrow> real \<Rightarrow> real \<Rightarrow> real" where
  "gapRect distance min_gap max_gap = max min_gap (min distance max_gap)"

definition gapCyl :: "real \<Rightarrow> real \<Rightarrow> real \<Rightarrow> real \<Rightarrow> real \<Rightarrow> real" where
  "gapCyl radius r1 r2 min_denom max_denom =
     (let denominator = radius * ln (r2 / r1)
      in max min_denom (min denominator max_denom))"

text \<open>\<^verbatim>\<open>std::pow(radius, 2.0)\<close> is the square of the radius, of either sign.\<close>

definition gapSphere :: "real \<Rightarrow> real \<Rightarrow> real \<Rightarrow> real \<Rightarrow> real \<Rightarrow> real" where
  "gapSphere radius r1 r2 min_denom max_denom =
     (let denominator = radius ^ 2 * ((1 / r1) - (1 / r2))
      in max min_denom (min denominator max_denom))"

definition gapLength :: "GAP_GEOMETRY \<Rightarrow> real \<Rightarrow> real \<Rightarrow> real \<Rightarrow> real \<Rightarrow> real \<Rightarrow> real" where
  "gapLength gap_geom radius r1 r2 min_gap max_gap =
     (if gap_geom = CYLINDER then gapCyl radius r1 r2 min_gap max_gap
      else if gap_geom = SPHERE then gapSphere radius r1 r2 min_gap max_gap
      else gapRect (r2 - r1) min_gap max_gap)"

subsection \<open>Radii of the gap (static function \<^verbatim>\<open>computeGapRadii\<close>)\<close>

text \<open>
  The locals \<^verbatim>\<open>rad\<close> and \<^verbatim>\<open>rad_dot_norm\<close> of the CYLINDER branch, as the source
  computes them from the point, the axis and the normal. \<open>None\<close> stands for a NaN:
  with \<^verbatim>\<open>p1 == p2\<close> the quotient defining \<^verbatim>\<open>t\<close> is \<^verbatim>\<open>0/0\<close>, and with the point on
  the axis \<^verbatim>\<open>rad_vec /= rad\<close> is \<^verbatim>\<open>0/0\<close>; either way \<^verbatim>\<open>rad_dot_norm\<close> is NaN.
\<close>

definition cylinder_rad_dot_norm :: "Point \<Rightarrow> Point \<Rightarrow> Point \<Rightarrow> Point \<Rightarrow> (real \<times> real) option" where
  "cylinder_rad_dot_norm current_point p1 p2 current_normal =
     (let p2p1 = pt_sub p2 p1;
          p1pc = pt_sub p1 current_point
      in if norm_sq p2p1 = 0 then None
         else
           let t = - (pt_dot p1pc p2p1) / norm_sq p2p1;
               p = pt_add p1 (pt_scale t p2p1);
               rad_vec = pt_sub current_point p;
               rad = pt_norm rad_vec
           in if rad = 0 then None
              else Some (rad, pt_dot (pt_div rad_vec rad) current_normal))"

text \<open>
  The result is the triple \<open>(r1, r2, radius)\<close> that the source assigns through its
  reference parameters. Both comparisons with a NaN are false in C++, so a NaN takes
  the final \<^verbatim>\<open>else\<close>, which is the \<^verbatim>\<open>mooseError\<close>.
\<close>

definition computeGapRadii ::
  "GAP_GEOMETRY \<Rightarrow> Point \<Rightarrow> Point \<Rightarrow> Point \<Rightarrow> real \<Rightarrow> Point \<Rightarrow> moose_error + (real \<times> real \<times> real)" where
  "computeGapRadii gap_geometry_type current_point p1 p2 gap_distance current_normal =
     (if gap_geometry_type = CYLINDER then
        (case cylinder_rad_dot_norm current_point p1 p2 current_normal of
           None \<Rightarrow> Inl CylindricalNormals
         | Some (rad, rad_dot_norm) \<Rightarrow>
             if rad_dot_norm > 0 then Inr (rad, rad - gap_distance, rad)
             else if rad_dot_norm < 0 then Inr (rad + gap_distance, rad, rad)
             else Inl CylindricalNormals)
      else if gap_geometry_type = SPHERE then
        (let origin_to_curr_point = pt_sub current_point p1;
             normal_dot = pt_dot origin_to_curr_point current_normal;
             curr_point_radius = pt_norm origin_to_curr_point
         in if normal_dot > 0 then
              Inr (curr_point_radius, curr_point_radius - gap_distance, curr_point_radius)
            else if normal_dot < 0 then
              Inr (curr_point_radius + gap_distance, curr_point_radius, curr_point_radius)
            else Inl SphericalNormals)
      else Inr (0, - gap_distance, 0))"

subsection \<open>Input parameters\<close>

text \<open>
  The parameters that \<^verbatim>\<open>validParams\<close> and \<^verbatim>\<open>actionParameters\<close> declare; the field
  \<open>par_x\<close> is the parameter \<^verbatim>\<open>"x"\<close>. A parameter declared without a default is an
  option: \<^verbatim>\<open>isParamValid\<close> (for the geometry type \<^verbatim>\<open>isParamSetByUser\<close>) is
  \<open>\<noteq> None\<close>. A coupled variable is the function from quadrature point to value,
  and \<^verbatim>\<open>isCoupled\<close> is \<open>\<noteq> None\<close>.
\<close>

record InputParameters =
  par_gap_geometry_type :: "GAP_GEOMETRY option"
  par_cylinder_axis_point_1 :: "Point option"
  par_cylinder_axis_point_2 :: "Point option"
  par_sphere_origin :: "Point option"
  par_emissivity_1 :: real
  par_emissivity_2 :: real
  par_warnings :: bool
  par_min_gap :: real
  par_max_gap :: real
  par_variable :: "nat \<Rightarrow> real"
  par_gap_distance :: "(nat \<Rightarrow> real) option"
  par_gap_temp :: "(nat \<Rightarrow> real) option"
  par_gap_conductivity :: real
  par_gap_conductivity_function :: "(real \<Rightarrow> Point \<Rightarrow> real) option"
  par_gap_conductivity_function_variable :: "(nat \<Rightarrow> real) option"
  par_quadrature :: bool
  par_paired_boundary :: "string option"
  par_stefan_boltzmann :: real

text \<open>
  The range expressions of \<^verbatim>\<open>addRangeCheckedParam\<close>, as \<^verbatim>\<open>actionParameters\<close> writes
  them: \<^verbatim>\<open>"emissivity_1>=0 & emissivity_1<=1"\<close>, \<^verbatim>\<open>"emissivity_2>=0 & emissivity_2<=1"\<close>,
  \<^verbatim>\<open>"min_gap>=0"\<close>, \<^verbatim>\<open>"max_gap>=0"\<close>. The framework evaluates them when the
  parameters are checked and ends the run with an error naming the parameters whose
  expression is false; that evaluation is not part of this file and is read here with
  the usual meaning of \<^verbatim>\<open>>=\<close>, \<^verbatim>\<open><=\<close> and \<^verbatim>\<open>&\<close>.
\<close>

definition rangeCheckFailures :: "InputParameters \<Rightarrow> string list" where
  "rangeCheckFailures params =
     (if par_emissivity_1 params \<ge> 0 \<and> par_emissivity_1 params \<le> 1 then [] else [''emissivity_1'']) @
     (if par_emissivity_2 params \<ge> 0 \<and> par_emissivity_2 params \<le> 1 then [] else [''emissivity_2'']) @
     (if par_min_gap params \<ge> 0 then [] else [''min_gap'']) @
     (if par_max_gap params \<ge> 0 then [] else [''max_gap''])"

definition checkParams :: "InputParameters \<Rightarrow> moose_error + unit" where
  "checkParams params =
     (if rangeCheckFailures params = [] then Inr ()
      else Inl (RangeCheckFailed (rangeCheckFailures params)))"

subsection \<open>Geometry parameters (static function \<^verbatim>\<open>setGapGeometryParameters\<close>)\<close>

text \<open>The result is the triple \<open>(gap_geometry_type, p1, p2)\<close> of the reference
  parameters, each as passed in unless the source assigns it.\<close>

definition setGapGeometryParameters ::
  "InputParameters \<Rightarrow> CoordinateSystemType \<Rightarrow> GAP_GEOMETRY \<Rightarrow> Point \<Rightarrow> Point
     \<Rightarrow> moose_error + (GAP_GEOMETRY \<times> Point \<times> Point)" where
  "setGapGeometryParameters params coord_sys gap_geometry_type0 p1 p2 =
     (let gap_geometry_type =
            (case par_gap_geometry_type params of
               Some g \<Rightarrow> g
             | None \<Rightarrow>
                 if coord_sys = COORD_XYZ then PLATE
                 else if coord_sys = COORD_RZ then CYLINDER
                 else if coord_sys = COORD_RSPHERICAL then SPHERE
                 else gap_geometry_type0)
      in if gap_geometry_type = PLATE then
           (if coord_sys = COORD_RSPHERICAL then Inl PlateSpherical
            else Inr (gap_geometry_type, p1, p2))
         else if gap_geometry_type = CYLINDER then
           (if coord_sys = COORD_XYZ then
              (if par_cylinder_axis_point_1 params = None \<or> par_cylinder_axis_point_2 params = None
               then Inl CylinderCartesianNeedsAxis
               else Inr (gap_geometry_type,
                         the (par_cylinder_axis_point_1 params),
                         the (par_cylinder_axis_point_2 params)))
            else if coord_sys = COORD_RZ then
              (if par_cylinder_axis_point_1 params \<noteq> None \<or> par_cylinder_axis_point_2 params \<noteq> None
               then Inl CylinderAxisymmetricAxisGiven
               else Inr (gap_geometry_type, Point 0 0 0, Point 0 1 0))
            else if coord_sys = COORD_RSPHERICAL then Inl CylinderSpherical
            else Inr (gap_geometry_type, p1, p2))
         else if gap_geometry_type = SPHERE then
           (if coord_sys = COORD_XYZ \<or> coord_sys = COORD_RZ then
              (if par_sphere_origin params = None then Inl SphereNeedsOrigin
               else Inr (gap_geometry_type, the (par_sphere_origin params), p2))
            else if coord_sys = COORD_RSPHERICAL then
              (if par_sphere_origin params \<noteq> None then Inl SphereSphericalOriginGiven
               else Inr (gap_geometry_type, Point 0 0 0, p2))
            else Inr (gap_geometry_type, p1, p2))
         else Inr (gap_geometry_type, p1, p2))"

subsection \<open>The material's state\<close>

text \<open>What the penetration search stores for a matched query node:
  \<^verbatim>\<open>_distance\<close>, \<^verbatim>\<open>_side\<close> (the opposing element, by its number) and
  \<^verbatim>\<open>_side_phi\<close>.\<close>

record PenetrationInfo =
  distance :: real
  side :: nat
  side_phi :: "real list list"

record Node =
  node_id :: nat
  node_point :: Point

text \<open>The arguments of the \<^verbatim>\<open>mooseWarning\<close> of \<^verbatim>\<open>computeGapValues\<close>: the node's id,
  the processor id and the node's coordinate. A warning is printed and the run goes
  on (the framework's default; it can be told to treat warnings as errors, which is
  outside this file).\<close>

datatype moose_warning = NoGapValueInformation nat nat Point

text \<open>
  The members of the base class that the file reads: a member \<^verbatim>\<open>_x\<close> is the field
  \<open>x\<close> (\<^verbatim>\<open>_t\<close> is \<open>t_time\<close>). \<open>quadrature_node\<close> is
  \<^verbatim>\<open>_mesh.getQuadratureNode(_current_elem, _current_side, qp)\<close> as a function of
  \<^verbatim>\<open>qp\<close>, and \<open>console\<close> collects the warnings emitted so far.
\<close>

record Material =
  pars :: InputParameters
  coord_sys :: CoordinateSystemType
  qp :: nat
  t_time :: real
  q_point :: "nat \<Rightarrow> Point"
  normals :: "nat \<Rightarrow> Point"
  quadrature_node :: "nat \<Rightarrow> Node"
  processor_id :: nat
  console :: "moose_warning list"

text \<open>
  The members of \<^verbatim>\<open>GapConductance\<close>. A material property and a coupled variable are
  functions from quadrature point to value. \<open>penetration_info\<close> is the map
  \<^verbatim>\<open>_penetration_locator->_penetration_info\<close> (a null pointer is \<open>None\<close>),
  \<open>dof_indices\<close> gives for an element the indices that
  \<^verbatim>\<open>_dof_map->dof_indices(elem, ., _temp_var->number())\<close> fills in, and
  \<open>serialized_solution\<close> is \<^verbatim>\<open>*_serialized_solution\<close>.
\<close>

record GapConductance = Material +
  temp :: "nat \<Rightarrow> real"
  gap_geometry_type :: GAP_GEOMETRY
  quadrature :: bool
  gap_temp :: real
  gap_distance :: real
  radius :: real
  r1 :: real
  r2 :: real
  has_info :: bool
  gap_distance_value :: "nat \<Rightarrow> real"
  gap_temp_value :: "nat \<Rightarrow> real"
  gap_conductance :: "nat \<Rightarrow> real"
  gap_conductance_dT :: "nat \<Rightarrow> real"
  gap_thermal_conductivity :: "nat \<Rightarrow> real"
  gap_conductivity :: real
  gap_conductivity_function :: "(real \<Rightarrow> Point \<Rightarrow> real) option"
  gap_conductivity_function_variable :: "(nat \<Rightarrow> real) option"
  stefan_boltzmann :: real
  emissivity :: real
  min_gap :: real
  max_gap :: real
  penetration_info :: "nat \<Rightarrow> PenetrationInfo option"
  serialized_solution :: "nat \<Rightarrow> real"
  dof_indices :: "nat \<Rightarrow> nat list"
  warnings :: bool
  p1 :: Point
  p2 :: Point

subsection \<open>Construction and initial setup\<close>

text \<open>The initializer of \<^verbatim>\<open>_emissivity\<close> (lines 128-131), from the parameters
  \<^verbatim>\<open>emissivity_1\<close> and \<^verbatim>\<open>emissivity_2\<close>.\<close>

definition emissivity_init :: "real \<Rightarrow> real \<Rightarrow> real" where
  "emissivity_init emissivity_1 emissivity_2 =
     (if emissivity_1 \<noteq> 0 \<and> emissivity_2 \<noteq> 0
      then 1 / emissivity_1 + 1 / emissivity_2 - 1
      else 0)"

text \<open>
  The constructor: the member initializers, then the checks of its body. The base
  object and the three collaborators of the quadrature mode (the penetration
  locator's map, the degree-of-freedom map and the solution) are arguments; the
  declared properties start at zero, and \<^verbatim>\<open>_zero\<close> is the zero variable value.
\<close>

definition GapConductance_ctor ::
  "Material \<Rightarrow> (nat \<Rightarrow> PenetrationInfo option) \<Rightarrow> (nat \<Rightarrow> nat list) \<Rightarrow> (nat \<Rightarrow> real)
     \<Rightarrow> moose_error + GapConductance" where
  "GapConductance_ctor m locator dof_map solution =
     (let parameters = pars m;
          zero = (\<lambda>_. 0);
          this = \<lparr> pars = parameters, coord_sys = coord_sys m, qp = qp m, t_time = t_time m,
                   q_point = q_point m, normals = normals m,
                   quadrature_node = quadrature_node m, processor_id = processor_id m,
                   console = console m,
                   temp = par_variable parameters,
                   gap_geometry_type = PLATE,
                   quadrature = par_quadrature parameters,
                   gap_temp = 0,
                   gap_distance = 88888,
                   radius = 0,
                   r1 = 0,
                   r2 = 0,
                   has_info = False,
                   gap_distance_value =
                     (if par_quadrature parameters then zero
                      else case par_gap_distance parameters of Some v \<Rightarrow> v | None \<Rightarrow> zero),
                   gap_temp_value =
                     (if par_quadrature parameters then zero
                      else case par_gap_temp parameters of Some v \<Rightarrow> v | None \<Rightarrow> zero),
                   gap_conductance = zero,
                   gap_conductance_dT = zero,
                   gap_thermal_conductivity = zero,
                   gap_conductivity = par_gap_conductivity parameters,
                   gap_conductivity_function = par_gap_conductivity_function parameters,
                   gap_conductivity_function_variable =
                     par_gap_conductivity_function_variable parameters,
                   stefan_boltzmann = par_stefan_boltzmann parameters,
                   emissivity =
                     emissivity_init (par_emissivity_1 parameters) (par_emissivity_2 parameters),
                   min_gap = par_min_gap parameters,
                   max_gap = par_max_gap parameters,
                   penetration_info = locator,
                   serialized_solution = solution,
                   dof_indices = dof_map,
                   warnings = par_warnings parameters,
                   p1 = Point 0 0 0,
                   p2 = Point 0 0 0 \<rparr>
      in if par_quadrature parameters then
           (if par_paired_boundary parameters = None then Inl NoPairedBoundary else Inr this)
         else if par_gap_distance parameters = None then Inl NoGapDistance
         else if par_gap_temp parameters = None then Inl NoGapTemp
         else Inr this)"

definition initialSetup :: "GapConductance \<Rightarrow> moose_error + GapConductance" where
  "initialSetup s =
     (case setGapGeometryParameters (pars s) (coord_sys s) (gap_geometry_type s) (p1 s) (p2 s) of
        Inl e \<Rightarrow> Inl e
      | Inr (g, a, b) \<Rightarrow> Inr (s\<lparr>gap_geometry_type := g, p1 := a, p2 := b\<rparr>))"

subsection \<open>Conductance at a quadrature point\<close>

definition gapK :: "GapConductance \<Rightarrow> real" where
  "gapK s =
     (case gap_conductivity_function s of
        None \<Rightarrow> gap_conductivity s
      | Some f \<Rightarrow>
          (case gap_conductivity_function_variable s of
             Some v \<Rightarrow> gap_conductivity s * f (v (qp s)) (q_point s (qp s))
           | None \<Rightarrow> gap_conductivity s * f (t_time s) (q_point s (qp s))))"

text \<open>\<^verbatim>\<open>h_conduction\<close> writes the property \<^verbatim>\<open>_gap_thermal_conductivity[_qp]\<close> and then
  reads it back: the result is the value together with the new state.\<close>

definition h_conduction :: "GapConductance \<Rightarrow> real \<times> GapConductance" where
  "h_conduction s =
     (let s' = s\<lparr>gap_thermal_conductivity := (gap_thermal_conductivity s)(qp s := gapK s)\<rparr>
      in (gap_thermal_conductivity s' (qp s') /
            gapLength (gap_geometry_type s') (radius s') (r1 s') (r2 s') (min_gap s') (max_gap s'),
          s'))"

definition dh_conduction :: "GapConductance \<Rightarrow> real" where
  "dh_conduction s = 0"

definition h_radiation :: "GapConductance \<Rightarrow> real" where
  "h_radiation s =
     (if emissivity s = 0 then 0
      else
        let temp_func =
              (temp s (qp s) * temp s (qp s) + gap_temp s * gap_temp s) * (temp s (qp s) + gap_temp s)
        in stefan_boltzmann s * temp_func / emissivity s)"

definition dh_radiation :: "GapConductance \<Rightarrow> real" where
  "dh_radiation s =
     (if emissivity s = 0 then 0
      else
        let temp_func =
              3 * temp s (qp s) * temp s (qp s) + gap_temp s * (2 * temp s (qp s) + gap_temp s)
        in stefan_boltzmann s * temp_func / emissivity s)"

definition computeQpConductance :: "GapConductance \<Rightarrow> GapConductance" where
  "computeQpConductance s =
     (if has_info s then
        (let (hc, s1) = h_conduction s;
             s2 = s1\<lparr>gap_conductance := (gap_conductance s1)(qp s1 := hc + h_radiation s1)\<rparr>
         in s2\<lparr>gap_conductance_dT := (gap_conductance_dT s2)(qp s2 := dh_conduction s2)\<rparr>)
      else
        (let s1 = s\<lparr>gap_conductance := (gap_conductance s)(qp s := 0)\<rparr>
         in s1\<lparr>gap_conductance_dT := (gap_conductance_dT s1)(qp s1 := 0)\<rparr>))"

subsection \<open>Gap values at a quadrature point\<close>

text \<open>The loop of lines 398-402: \<^verbatim>\<open>i\<close> runs over the indices of
  \<^verbatim>\<open>slave_side_dof_indices\<close> in order, adding to \<^verbatim>\<open>_gap_temp\<close>.\<close>

definition gap_temp_loop :: "real list list \<Rightarrow> nat list \<Rightarrow> (nat \<Rightarrow> real) \<Rightarrow> real \<Rightarrow> real" where
  "gap_temp_loop slave_side_phi slave_side_dof_indices solution gap_temp0 =
     fold (\<lambda>i acc. acc + slave_side_phi ! i ! 0 * solution (slave_side_dof_indices ! i))
          [0 ..< length slave_side_dof_indices] gap_temp0"

text \<open>The first part of \<^verbatim>\<open>computeGapValues\<close> (lines 372-414): it sets
  \<^verbatim>\<open>_has_info\<close>, \<^verbatim>\<open>_gap_temp\<close> and \<^verbatim>\<open>_gap_distance\<close> and may warn; nothing in it
  is fatal.\<close>

definition resolveGapValues :: "GapConductance \<Rightarrow> GapConductance" where
  "resolveGapValues s =
     (if \<not> quadrature s then
        s\<lparr>has_info := True,
          gap_temp := gap_temp_value s (qp s),
          gap_distance := gap_distance_value s (qp s)\<rparr>
      else
        (let qnode = quadrature_node s (qp s);
             pinfo = penetration_info s (node_id qnode);
             s0 = s\<lparr>gap_temp := 0, gap_distance := 88888, has_info := False\<rparr>
         in case pinfo of
              Some pinfo \<Rightarrow>
                (let slave_side = side pinfo;
                     slave_side_phi = side_phi pinfo;
                     slave_side_dof_indices = dof_indices s0 slave_side
                 in s0\<lparr>gap_distance := distance pinfo,
                        has_info := True,
                        gap_temp := gap_temp_loop slave_side_phi slave_side_dof_indices
                                      (serialized_solution s0) (gap_temp s0)\<rparr>)
            | None \<Rightarrow>
                (if warnings s0 then
                   s0\<lparr>console := console s0 @
                        [NoGapValueInformation (node_id qnode) (processor_id s0) (node_point qnode)]\<rparr>
                 else s0)))"

text \<open>\<^verbatim>\<open>computeGapValues\<close>: the part above, then the call of \<^verbatim>\<open>computeGapRadii\<close>
  (lines 416-418), whose error ends the run.\<close>

definition computeGapValues :: "GapConductance \<Rightarrow> moose_error + GapConductance" where
  "computeGapValues s =
     (let s1 = resolveGapValues s;
          current_point = q_point s1 (qp s1)
      in case computeGapRadii (gap_geometry_type s1) current_point (p1 s1) (p2 s1)
                (gap_distance s1) (normals s1 (qp s1)) of
           Inl e \<Rightarrow> Inl e
         | Inr (a, b, c) \<Rightarrow> Inr (s1\<lparr>r1 := a, r2 := b, radius := c\<rparr>))"

definition computeQpProperties :: "GapConductance \<Rightarrow> moose_error + GapConductance" where
  "computeQpProperties s =
     (case computeGapValues s of
        Inl e \<Rightarrow> Inl e
      | Inr s1 \<Rightarrow> Inr (computeQpConductance s1))"

subsection \<open>Configurations used to evaluate the model\<close>

text \<open>The defaults of \<^verbatim>\<open>validParams<GapConductance>\<close> and \<^verbatim>\<open>actionParameters\<close>; the
  required coupled variable \<^verbatim>\<open>"variable"\<close> is the argument.\<close>

definition validParams :: "(nat \<Rightarrow> real) \<Rightarrow> InputParameters" where
  "validParams variable =
     \<lparr> par_gap_geometry_type = None,
       par_cylinder_axis_point_1 = None,
       par_cylinder_axis_point_2 = None,
       par_sphere_origin = None,
       par_emissivity_1 = 0,
       par_emissivity_2 = 0,
       par_warnings = False,
       par_min_gap = 1 / 1000000,
       par_max_gap = 1000000,
       par_variable = variable,
       par_gap_distance = None,
       par_gap_temp = None,
       par_gap_conductivity = 1,
       par_gap_conductivity_function = None,
       par_gap_conductivity_function_variable = None,
       par_quadrature = False,
       par_paired_boundary = None,
       par_stefan_boltzmann = 5669 / 100000000000 \<rparr>"

text \<open>A base object at quadrature point 0, whose point is \<open>(2, 5, 0)\<close> with normal
  \<open>(1, 0, 0)\<close> and whose quadrature node has the id 7.\<close>

definition test_material :: "InputParameters \<Rightarrow> CoordinateSystemType \<Rightarrow> Material" where
  "test_material params cs =
     \<lparr> pars = params, coord_sys = cs, qp = 0, t_time = 0,
       q_point = (\<lambda>_. Point 2 5 0), normals = (\<lambda>_. Point 1 0 0),
       quadrature_node = (\<lambda>_. \<lparr> node_id = 7, node_point = Point 2 5 0 \<rparr>),
       processor_id = 0, console = [] \<rparr>"

text \<open>Construction followed by the initial setup, as the framework runs them, with
  the range checks of the parameters first.\<close>

definition setup_material ::
  "Material \<Rightarrow> (nat \<Rightarrow> PenetrationInfo option) \<Rightarrow> (nat \<Rightarrow> nat list) \<Rightarrow> (nat \<Rightarrow> real)
     \<Rightarrow> moose_error + GapConductance" where
  "setup_material m locator dof_map solution =
     (case checkParams (pars m) of
        Inl e \<Rightarrow> Inl e
      | Inr _ \<Rightarrow>
          (case GapConductance_ctor m locator dof_map solution of
             Inl e \<Rightarrow> Inl e
           | Inr s \<Rightarrow> initialSetup s))"

text \<open>The setup followed by the evaluation of the quadrature point of the base
  object.\<close>

definition evaluate_point ::
  "Material \<Rightarrow> (nat \<Rightarrow> PenetrationInfo option) \<Rightarrow> (nat \<Rightarrow> nat list) \<Rightarrow> (nat \<Rightarrow> real)
     \<Rightarrow> moose_error + GapConductance" where
  "evaluate_point m locator dof_map solution =
     (case setup_material m locator dof_map solution of
        Inl e \<Rightarrow> Inl e
      | Inr s \<Rightarrow> computeQpProperties s)"

text \<open>Node based, Cartesian: temperature 500, gap temperature 400, gap distance
  \<open>-0.02\<close>, both emissivities 0.8.\<close>

definition node_based_params :: InputParameters where
  "node_based_params =
     (validParams (\<lambda>_. 500))
       \<lparr> par_gap_distance := Some (\<lambda>_. - (2 / 100)),
         par_gap_temp := Some (\<lambda>_. 400),
         par_emissivity_1 := 8 / 10,
         par_emissivity_2 := 8 / 10 \<rparr>"

text \<open>Quadrature based, axisymmetric (so the geometry is CYLINDER about the y-axis),
  warnings on.\<close>

definition quadrature_params :: InputParameters where
  "quadrature_params =
     (validParams (\<lambda>_. 500))
       \<lparr> par_quadrature := True,
         par_paired_boundary := Some ''2'',
         par_warnings := True \<rparr>"

text \<open>A search result for node 7: distance \<open>-0.5\<close>, opposing element 3 with two
  nodes of weights 0.25 and 0.75; the element's indices are 10 and 11, where the
  solution is 300 and 400.\<close>

definition matched_locator :: "nat \<Rightarrow> PenetrationInfo option" where
  "matched_locator n =
     (if n = 7 then Some \<lparr> distance = - (1 / 2), side = 3, side_phi = [[1 / 4], [3 / 4]] \<rparr>
      else None)"

definition test_dof_map :: "nat \<Rightarrow> nat list" where
  "test_dof_map e = (if e = 3 then [10, 11] else [])"

definition test_solution :: "nat \<Rightarrow> real" where
  "test_solution i = (if i = 10 then 300 else if i = 11 then 400 else 0)"

subsection \<open>The specification's wording of the geometry rules and of the clamp\<close>

text \<open>\<open>spec_clamp\<close> is the clamp of the specification: the maximum of the lower bound
  and the minimum of the raw length and the upper bound.\<close>

definition spec_clamp :: "real \<Rightarrow> real \<Rightarrow> real \<Rightarrow> real" where
  "spec_clamp raw lo hi = max lo (min raw hi)"

text \<open>The specification's table of geometry type against coordinate system: the
  default type, whether a combination is accepted, and the points it fixes.\<close>

definition spec_default_geometry :: "CoordinateSystemType \<Rightarrow> GAP_GEOMETRY" where
  "spec_default_geometry cs =
     (case cs of COORD_XYZ \<Rightarrow> PLATE | COORD_RZ \<Rightarrow> CYLINDER | COORD_RSPHERICAL \<Rightarrow> SPHERE)"

definition spec_resolved_geometry :: "InputParameters \<Rightarrow> CoordinateSystemType \<Rightarrow> GAP_GEOMETRY" where
  "spec_resolved_geometry params cs =
     (case par_gap_geometry_type params of Some g \<Rightarrow> g | None \<Rightarrow> spec_default_geometry cs)"

definition spec_accepts :: "GAP_GEOMETRY \<Rightarrow> CoordinateSystemType \<Rightarrow> InputParameters \<Rightarrow> bool" where
  "spec_accepts g cs params =
     (case g of
        PLATE \<Rightarrow> cs \<noteq> COORD_RSPHERICAL
      | CYLINDER \<Rightarrow>
          (case cs of
             COORD_XYZ \<Rightarrow>
               par_cylinder_axis_point_1 params \<noteq> None \<and> par_cylinder_axis_point_2 params \<noteq> None
           | COORD_RZ \<Rightarrow>
               par_cylinder_axis_point_1 params = None \<and> par_cylinder_axis_point_2 params = None
           | COORD_RSPHERICAL \<Rightarrow> False)
      | SPHERE \<Rightarrow>
          (case cs of
             COORD_RSPHERICAL \<Rightarrow> par_sphere_origin params = None
           | _ \<Rightarrow> par_sphere_origin params \<noteq> None))"

definition spec_points ::
  "GAP_GEOMETRY \<Rightarrow> CoordinateSystemType \<Rightarrow> InputParameters \<Rightarrow> Point \<Rightarrow> Point \<Rightarrow> Point \<times> Point" where
  "spec_points g cs params a b =
     (case g of
        PLATE \<Rightarrow> (a, b)
      | CYLINDER \<Rightarrow>
          (case cs of
             COORD_XYZ \<Rightarrow>
               (the (par_cylinder_axis_point_1 params), the (par_cylinder_axis_point_2 params))
           | _ \<Rightarrow> (Point 0 0 0, Point 0 1 0))
      | SPHERE \<Rightarrow>
          (case cs of
             COORD_RSPHERICAL \<Rightarrow> (Point 0 0 0, b)
           | _ \<Rightarrow> (the (par_sphere_origin params), b)))"

section \<open>Properties\<close>

subsection \<open>The clamp of the gap length\<close>

lemma gapRect_lower: "lo \<le> gapRect L lo hi"
  by (simp add: gapRect_def)

lemma gapRect_upper: "lo \<le> hi \<Longrightarrow> gapRect L lo hi \<le> hi"
  by (simp add: gapRect_def)

lemma gapLength_lower: "lo \<le> gapLength g rad ra rb lo hi"
  by (simp add: gapLength_def gapCyl_def gapSphere_def gapRect_def)

lemma gapLength_upper: "lo \<le> hi \<Longrightarrow> gapLength g rad ra rb lo hi \<le> hi"
  by (simp add: gapLength_def gapCyl_def gapSphere_def gapRect_def)

text \<open>
  Claim C7, as the code has it. The clamp \<open>max(min_gap, min(L, max_gap))\<close> of
  \<^verbatim>\<open>gapRect\<close> is never below \<open>min_gap\<close>; it is at most \<open>max_gap\<close> when
  \<open>min_gap \<le> max_gap\<close>; and clamping a clamped length changes nothing, whatever the
  bounds are.
\<close>

theorem gapRect_interval_idempotent:
  "lo \<le> gapRect L lo hi \<and>
   (lo \<le> hi \<longrightarrow> gapRect L lo hi \<le> hi) \<and>
   gapRect (gapRect L lo hi) lo hi = gapRect L lo hi"
  by (simp add: gapRect_def max_def min_def)

text \<open>The bounds of the defaults: an inverted distance is clamped to \<open>min_gap\<close>, a
  distance inside the bounds is kept.\<close>

theorem gapRect_interval_idempotent_witness:
  "(1 / 1000000 :: real) \<le> 1000000 \<and>
   gapRect (- 5) (1 / 1000000) 1000000 = 1 / 1000000 \<and>
   gapRect (1 / 100) (1 / 1000000) 1000000 = 1 / 100 \<and>
   gapRect (gapRect (- 5) (1 / 1000000) 1000000) (1 / 1000000) 1000000 \<le> 1000000"
  using gapRect_interval_idempotent [of "1 / 1000000" "gapRect (- 5) (1 / 1000000) 1000000" 1000000]
  by (simp add: gapRect_def)

text \<open>With \<open>min_gap = 2\<close> and \<open>max_gap = 1\<close>, which the range checks of both
  parameters accept, the clamp of 0 is 2: above \<open>max_gap\<close>.\<close>

theorem gapRect_interval_counterexample:
  "gapRect 0 2 1 = 2 \<and> \<not> (gapRect 0 2 1 \<le> 1)"
  by (simp add: gapRect_def)

subsection \<open>The radii of the cylinder and of the sphere\<close>

lemma cyl_eval_pos:
  "cylinder_rad_dot_norm (Point 2 5 0) (Point 0 0 0) (Point 0 1 0) (Point 1 0 0) = Some (2, 1)"
  by (simp add: cylinder_rad_dot_norm_def norm_sq_def pt_norm_def Let_def)

lemma cyl_eval_neg:
  "cylinder_rad_dot_norm (Point 2 5 0) (Point 0 0 0) (Point 0 1 0) (Point (- 1) 0 0) = Some (2, - 1)"
  by (simp add: cylinder_rad_dot_norm_def norm_sq_def pt_norm_def Let_def)

lemma cyl_eval_zero:
  "cylinder_rad_dot_norm (Point 2 5 0) (Point 0 0 0) (Point 0 1 0) (Point 0 1 0) = Some (2, 0)"
  by (simp add: cylinder_rad_dot_norm_def norm_sq_def pt_norm_def Let_def)

text \<open>
  Claim C5. For CYLINDER, with \<open>rad\<close> and the dot product \<open>d\<close> as the source computes
  them: \<open>d = 0\<close> is the fatal error and gives no radii, \<open>d > 0\<close> gives
  \<open>(r1, r2, radius) = (rad, rad - gap_distance, rad)\<close>, and \<open>d < 0\<close> gives
  \<open>(rad + gap_distance, rad, rad)\<close>; a dot product that is not a number is the
  fatal error too. For SPHERE the same holds with \<open>rad\<close> the distance of the point
  from the origin \<open>p1\<close> and \<open>d\<close> the dot product of that offset with the normal.
\<close>

theorem computeGapRadii_by_dot_product:
  "(\<forall>rad d. cylinder_rad_dot_norm cp a b n = Some (rad, d) \<longrightarrow>
      (d = 0 \<longrightarrow> computeGapRadii CYLINDER cp a b gd n = Inl CylindricalNormals) \<and>
      (d > 0 \<longrightarrow> computeGapRadii CYLINDER cp a b gd n = Inr (rad, rad - gd, rad)) \<and>
      (d < 0 \<longrightarrow> computeGapRadii CYLINDER cp a b gd n = Inr (rad + gd, rad, rad))) \<and>
   (cylinder_rad_dot_norm cp a b n = None \<longrightarrow>
      computeGapRadii CYLINDER cp a b gd n = Inl CylindricalNormals) \<and>
   (\<forall>rad d. rad = pt_norm (pt_sub cp a) \<and> d = pt_dot (pt_sub cp a) n \<longrightarrow>
      (d = 0 \<longrightarrow> computeGapRadii SPHERE cp a b gd n = Inl SphericalNormals) \<and>
      (d > 0 \<longrightarrow> computeGapRadii SPHERE cp a b gd n = Inr (rad, rad - gd, rad)) \<and>
      (d < 0 \<longrightarrow> computeGapRadii SPHERE cp a b gd n = Inr (rad + gd, rad, rad)))"
proof (intro conjI allI impI)
  fix rad d
  assume c: "cylinder_rad_dot_norm cp a b n = Some (rad, d)"
  show "d = 0 \<Longrightarrow> computeGapRadii CYLINDER cp a b gd n = Inl CylindricalNormals"
    using c by (simp add: computeGapRadii_def)
  show "0 < d \<Longrightarrow> computeGapRadii CYLINDER cp a b gd n = Inr (rad, rad - gd, rad)"
    using c by (simp add: computeGapRadii_def)
  show "d < 0 \<Longrightarrow> computeGapRadii CYLINDER cp a b gd n = Inr (rad + gd, rad, rad)"
    using c by (simp add: computeGapRadii_def)
next
  assume "cylinder_rad_dot_norm cp a b n = None"
  then show "computeGapRadii CYLINDER cp a b gd n = Inl CylindricalNormals"
    by (simp add: computeGapRadii_def)
next
  fix rad d
  assume s: "rad = pt_norm (pt_sub cp a) \<and> d = pt_dot (pt_sub cp a) n"
  show "d = 0 \<Longrightarrow> computeGapRadii SPHERE cp a b gd n = Inl SphericalNormals"
    using s by (simp add: computeGapRadii_def Let_def)
  show "0 < d \<Longrightarrow> computeGapRadii SPHERE cp a b gd n = Inr (rad, rad - gd, rad)"
    using s by (simp add: computeGapRadii_def Let_def)
  show "d < 0 \<Longrightarrow> computeGapRadii SPHERE cp a b gd n = Inr (rad + gd, rad, rad)"
    using s by (simp add: computeGapRadii_def Let_def)
qed

text \<open>The point \<open>(2, 5, 0)\<close> about the y-axis, and the point \<open>(2, 0, 0)\<close> about the
  origin, with a normal pointing outwards, inwards and along the axis; and a cylinder
  whose two axis points coincide.\<close>

theorem computeGapRadii_by_dot_product_witness:
  "computeGapRadii CYLINDER (Point 2 5 0) (Point 0 0 0) (Point 0 1 0) (- (1 / 2)) (Point 1 0 0)
     = Inr (2, 5 / 2, 2) \<and>
   computeGapRadii CYLINDER (Point 2 5 0) (Point 0 0 0) (Point 0 1 0) (- (1 / 2)) (Point (- 1) 0 0)
     = Inr (3 / 2, 2, 2) \<and>
   computeGapRadii CYLINDER (Point 2 5 0) (Point 0 0 0) (Point 0 1 0) (- (1 / 2)) (Point 0 1 0)
     = Inl CylindricalNormals \<and>
   computeGapRadii CYLINDER (Point 2 5 0) (Point 0 0 0) (Point 0 0 0) (- (1 / 2)) (Point 1 0 0)
     = Inl CylindricalNormals \<and>
   computeGapRadii SPHERE (Point 2 0 0) (Point 0 0 0) (Point 0 0 0) (- (1 / 2)) (Point 1 0 0)
     = Inr (2, 5 / 2, 2) \<and>
   computeGapRadii SPHERE (Point 2 0 0) (Point 0 0 0) (Point 0 0 0) (- (1 / 2)) (Point (- 1) 0 0)
     = Inr (3 / 2, 2, 2) \<and>
   computeGapRadii SPHERE (Point 2 0 0) (Point 0 0 0) (Point 0 0 0) (- (1 / 2)) (Point 0 1 0)
     = Inl SphericalNormals"
proof -
  have none: "cylinder_rad_dot_norm (Point 2 5 0) (Point 0 0 0) (Point 0 0 0) (Point 1 0 0) = None"
    by (simp add: cylinder_rad_dot_norm_def norm_sq_def)
  have sph: "pt_norm (Point 2 0 0) = 2"
    by (simp add: pt_norm_def norm_sq_def)
  have w1: "computeGapRadii CYLINDER (Point 2 5 0) (Point 0 0 0) (Point 0 1 0) (- (1 / 2)) (Point 1 0 0)
              = Inr (2, 5 / 2, 2)"
    using computeGapRadii_by_dot_product
            [of "Point 2 5 0" "Point 0 0 0" "Point 0 1 0" "Point 1 0 0" "- (1 / 2)"]
    by (simp add: cyl_eval_pos)
  have w2: "computeGapRadii CYLINDER (Point 2 5 0) (Point 0 0 0) (Point 0 1 0) (- (1 / 2)) (Point (- 1) 0 0)
              = Inr (3 / 2, 2, 2)"
    using computeGapRadii_by_dot_product
            [of "Point 2 5 0" "Point 0 0 0" "Point 0 1 0" "Point (- 1) 0 0" "- (1 / 2)"]
    by (simp add: cyl_eval_neg)
  have w3: "computeGapRadii CYLINDER (Point 2 5 0) (Point 0 0 0) (Point 0 1 0) (- (1 / 2)) (Point 0 1 0)
              = Inl CylindricalNormals"
    using computeGapRadii_by_dot_product
            [of "Point 2 5 0" "Point 0 0 0" "Point 0 1 0" "Point 0 1 0" "- (1 / 2)"]
    by (simp add: cyl_eval_zero)
  have w4: "computeGapRadii CYLINDER (Point 2 5 0) (Point 0 0 0) (Point 0 0 0) (- (1 / 2)) (Point 1 0 0)
              = Inl CylindricalNormals"
    using computeGapRadii_by_dot_product
            [of "Point 2 5 0" "Point 0 0 0" "Point 0 0 0" "Point 1 0 0" "- (1 / 2)"]
    by (simp add: none)
  have w5: "computeGapRadii SPHERE (Point 2 0 0) (Point 0 0 0) (Point 0 0 0) (- (1 / 2)) (Point 1 0 0)
              = Inr (2, 5 / 2, 2)"
    using computeGapRadii_by_dot_product
            [of "Point 2 0 0" "Point 0 0 0" "Point 0 0 0" "Point 1 0 0" "- (1 / 2)"]
    by (simp add: sph)
  have w6: "computeGapRadii SPHERE (Point 2 0 0) (Point 0 0 0) (Point 0 0 0) (- (1 / 2)) (Point (- 1) 0 0)
              = Inr (3 / 2, 2, 2)"
    using computeGapRadii_by_dot_product
            [of "Point 2 0 0" "Point 0 0 0" "Point 0 0 0" "Point (- 1) 0 0" "- (1 / 2)"]
    by (simp add: sph)
  have w7: "computeGapRadii SPHERE (Point 2 0 0) (Point 0 0 0) (Point 0 0 0) (- (1 / 2)) (Point 0 1 0)
              = Inl SphericalNormals"
    using computeGapRadii_by_dot_product
            [of "Point 2 0 0" "Point 0 0 0" "Point 0 0 0" "Point 0 1 0" "- (1 / 2)"]
    by (simp add: sph)
  from w1 w2 w3 w4 w5 w6 w7 show ?thesis by simp
qed

subsection \<open>Geometry type against coordinate system\<close>

text \<open>
  Claim C4. The resolved geometry type is the user's, or by default PLATE for
  Cartesian, CYLINDER for axisymmetric and SPHERE for spherical coordinates.
  \<^verbatim>\<open>setGapGeometryParameters\<close> succeeds exactly on the combinations of the
  specification's table (\<open>spec_accepts\<close>) and then returns the resolved type with
  the points of that table (\<open>spec_points\<close>): the supplied axis points, the y-axis
  through \<open>(0,0,0)\<close> and \<open>(0,1,0)\<close>, the supplied origin, or the origin \<open>(0,0,0)\<close>;
  on every other combination it is a fatal error.
\<close>

theorem setGapGeometryParameters_accepts_exactly:
  "(let g = spec_resolved_geometry params cs in
     if spec_accepts g cs params
     then setGapGeometryParameters params cs g0 a b = Inr (g, spec_points g cs params a b)
     else isl (setGapGeometryParameters params cs g0 a b))"
proof (cases "par_gap_geometry_type params")
  case None
  then show ?thesis
    by (cases cs)
       (simp_all add: spec_resolved_geometry_def spec_default_geometry_def spec_accepts_def
          spec_points_def setGapGeometryParameters_def)
next
  case (Some g)
  then show ?thesis
    by (cases g; cases cs)
       (simp_all add: spec_resolved_geometry_def spec_accepts_def spec_points_def
          setGapGeometryParameters_def)
qed

text \<open>The default under axisymmetric coordinates, PLATE under spherical
  coordinates, and SPHERE with an origin under Cartesian coordinates.\<close>

theorem setGapGeometryParameters_accepts_exactly_witness:
  "setGapGeometryParameters (validParams (\<lambda>_. 500)) COORD_RZ PLATE (Point 0 0 0) (Point 0 0 0)
     = Inr (CYLINDER, Point 0 0 0, Point 0 1 0) \<and>
   isl (setGapGeometryParameters ((validParams (\<lambda>_. 500))\<lparr>par_gap_geometry_type := Some PLATE\<rparr>)
          COORD_RSPHERICAL PLATE (Point 0 0 0) (Point 0 0 0)) \<and>
   setGapGeometryParameters ((validParams (\<lambda>_. 500))\<lparr>par_gap_geometry_type := Some SPHERE,
          par_sphere_origin := Some (Point 1 2 3)\<rparr>)
     COORD_XYZ PLATE (Point 0 0 0) (Point 0 0 0) = Inr (SPHERE, Point 1 2 3, Point 0 0 0)"
proof -
  let ?v = "validParams (\<lambda>_. 500)"
  have w1: "setGapGeometryParameters ?v COORD_RZ PLATE (Point 0 0 0) (Point 0 0 0)
              = Inr (CYLINDER, Point 0 0 0, Point 0 1 0)"
    using setGapGeometryParameters_accepts_exactly
            [of ?v COORD_RZ PLATE "Point 0 0 0" "Point 0 0 0"]
    by (simp add: spec_resolved_geometry_def spec_default_geometry_def spec_accepts_def
          spec_points_def validParams_def)
  have w2: "isl (setGapGeometryParameters (?v\<lparr>par_gap_geometry_type := Some PLATE\<rparr>)
                   COORD_RSPHERICAL PLATE (Point 0 0 0) (Point 0 0 0))"
    using setGapGeometryParameters_accepts_exactly
            [of "?v\<lparr>par_gap_geometry_type := Some PLATE\<rparr>" COORD_RSPHERICAL PLATE
                "Point 0 0 0" "Point 0 0 0"]
    by (simp add: spec_resolved_geometry_def spec_accepts_def)
  have w3: "setGapGeometryParameters (?v\<lparr>par_gap_geometry_type := Some SPHERE,
                  par_sphere_origin := Some (Point 1 2 3)\<rparr>)
              COORD_XYZ PLATE (Point 0 0 0) (Point 0 0 0) = Inr (SPHERE, Point 1 2 3, Point 0 0 0)"
    using setGapGeometryParameters_accepts_exactly
            [of "?v\<lparr>par_gap_geometry_type := Some SPHERE, par_sphere_origin := Some (Point 1 2 3)\<rparr>"
                COORD_XYZ PLATE "Point 0 0 0" "Point 0 0 0"]
    by (simp add: spec_resolved_geometry_def spec_accepts_def spec_points_def)
  from w1 w2 w3 show ?thesis by simp
qed

subsection \<open>The range check of \<^verbatim>\<open>min_gap\<close>\<close>

text \<open>
  Claim C9, as the code has it. A negative \<open>min_gap\<close> fails the range check
  \<^verbatim>\<open>min_gap>=0\<close>, a fatal error that names the parameter; \<open>min_gap = 0\<close> passes it;
  and the parameters pass the check as a whole exactly when all four range
  expressions hold.
\<close>

theorem min_gap_range_check:
  "(par_min_gap params < 0 \<longrightarrow>
      (\<exists>names. checkParams params = Inl (RangeCheckFailed names) \<and> ''min_gap'' \<in> set names)) \<and>
   (par_min_gap params = 0 \<longrightarrow> ''min_gap'' \<notin> set (rangeCheckFailures params)) \<and>
   (checkParams params = Inr () \<longleftrightarrow>
      0 \<le> par_emissivity_1 params \<and> par_emissivity_1 params \<le> 1 \<and>
      0 \<le> par_emissivity_2 params \<and> par_emissivity_2 params \<le> 1 \<and>
      0 \<le> par_min_gap params \<and> 0 \<le> par_max_gap params)"
  by (auto simp add: checkParams_def rangeCheckFailures_def)

text \<open>The node-based configuration with \<open>min_gap = 0\<close> and with \<open>min_gap = -1\<close>.\<close>

theorem min_gap_range_check_witness:
  "par_min_gap (node_based_params\<lparr>par_min_gap := 0\<rparr>) = 0 \<and>
   checkParams (node_based_params\<lparr>par_min_gap := 0\<rparr>) = Inr () \<and>
   par_min_gap (node_based_params\<lparr>par_min_gap := - 1\<rparr>) < 0 \<and>
   checkParams (node_based_params\<lparr>par_min_gap := - 1\<rparr>) = Inl (RangeCheckFailed [''min_gap''])"
proof -
  have ok: "checkParams (node_based_params\<lparr>par_min_gap := 0\<rparr>) = Inr ()"
    using min_gap_range_check [of "node_based_params\<lparr>par_min_gap := 0\<rparr>"]
    by (simp add: node_based_params_def validParams_def)
  have "\<exists>names. checkParams (node_based_params\<lparr>par_min_gap := - 1\<rparr>) = Inl (RangeCheckFailed names)
          \<and> ''min_gap'' \<in> set names"
    using min_gap_range_check [of "node_based_params\<lparr>par_min_gap := - 1\<rparr>"]
    by simp
  then have bad: "checkParams (node_based_params\<lparr>par_min_gap := - 1\<rparr>) = Inl (RangeCheckFailed [''min_gap''])"
    by (simp add: checkParams_def rangeCheckFailures_def node_based_params_def validParams_def)
  from ok bad show ?thesis by simp
qed

text \<open>With \<open>min_gap = -1\<close> the setup of the material ends in the range-check error.\<close>

theorem min_gap_negative_counterexample:
  "par_min_gap (node_based_params\<lparr>par_min_gap := - 1\<rparr>) \<le> 0 \<and>
   setup_material (test_material (node_based_params\<lparr>par_min_gap := - 1\<rparr>) COORD_XYZ)
     (\<lambda>_. None) (\<lambda>_. []) (\<lambda>_. 0) = Inl (RangeCheckFailed [''min_gap''])"
  by (simp add: setup_material_def test_material_def checkParams_def rangeCheckFailures_def
        node_based_params_def validParams_def)

subsection \<open>Evaluating the configurations\<close>

lemmas config_defs =
  evaluate_point_def setup_material_def test_material_def checkParams_def rangeCheckFailures_def
  node_based_params_def quadrature_params_def validParams_def GapConductance_ctor_def
  initialSetup_def setGapGeometryParameters_def emissivity_init_def Let_def

lemmas point_defs =
  computeQpProperties_def computeGapValues_def resolveGapValues_def computeGapRadii_def
  computeQpConductance_def h_conduction_def gapK_def h_radiation_def dh_radiation_def
  dh_conduction_def gapLength_def gapRect_def

lemmas gap_values_defs =
  computeGapValues_def computeGapRadii_def cyl_eval_pos

subsection \<open>What \<^verbatim>\<open>computeQpConductance\<close> writes\<close>

lemma computeQpConductance_qp: "qp (computeQpConductance s) = qp s"
  by (simp add: computeQpConductance_def h_conduction_def Let_def)

lemma computeQpConductance_no_info:
  "\<not> has_info s \<Longrightarrow>
   computeQpConductance s =
     s\<lparr>gap_conductance := (gap_conductance s)(qp s := 0),
       gap_conductance_dT := (gap_conductance_dT s)(qp s := 0)\<rparr>"
  by (simp add: computeQpConductance_def Let_def)

lemma computeQpConductance_info:
  "has_info s \<Longrightarrow>
   computeQpConductance s =
     s\<lparr>gap_thermal_conductivity := (gap_thermal_conductivity s)(qp s := gapK s),
       gap_conductance := (gap_conductance s)(qp s :=
          gapK s / gapLength (gap_geometry_type s) (radius s) (r1 s) (r2 s) (min_gap s) (max_gap s)
          + h_radiation s),
       gap_conductance_dT := (gap_conductance_dT s)(qp s := 0)\<rparr>"
  by (simp add: computeQpConductance_def h_conduction_def h_radiation_def dh_conduction_def Let_def)

lemma resolveGapValues_qp: "qp (resolveGapValues s) = qp s"
  by (simp add: resolveGapValues_def Let_def split: option.splits)

lemma computeGapValues_qp: "computeGapValues s = Inr s1 \<Longrightarrow> qp s1 = qp s"
  by (auto simp add: computeGapValues_def Let_def resolveGapValues_qp split: sum.splits)

lemma computeQpConductance_gap_values:
  "has_info (computeQpConductance s) = has_info s"
  "gap_distance (computeQpConductance s) = gap_distance s"
  "gap_temp (computeQpConductance s) = gap_temp s"
  "console (computeQpConductance s) = console s"
  by (cases "has_info s";
      simp add: computeQpConductance_info computeQpConductance_no_info)+

lemma computeQpProperties_gap_values:
  assumes "computeQpProperties s = Inr s2"
  shows "has_info s2 = has_info (resolveGapValues s)"
    and "gap_distance s2 = gap_distance (resolveGapValues s)"
    and "gap_temp s2 = gap_temp (resolveGapValues s)"
    and "console s2 = console (resolveGapValues s)"
proof -
  obtain s1 where s1: "computeGapValues s = Inr s1" and s2: "s2 = computeQpConductance s1"
    using assms by (auto simp add: computeQpProperties_def split: sum.splits)
  obtain a b c where "s1 = (resolveGapValues s)\<lparr>r1 := a, r2 := b, radius := c\<rparr>"
    using s1 by (auto simp add: computeGapValues_def Let_def split: sum.splits)
  then show "has_info s2 = has_info (resolveGapValues s)"
    and "gap_distance s2 = gap_distance (resolveGapValues s)"
    and "gap_temp s2 = gap_temp (resolveGapValues s)"
    and "console s2 = console (resolveGapValues s)"
    by (simp_all add: s2 computeQpConductance_gap_values)
qed

text \<open>
  Claim C2. At a point without contact (\<^verbatim>\<open>_has_info\<close> false) the conductance and
  its temperature derivative are both written as 0, whatever the geometry type, the
  temperatures and the other members are. This holds for \<^verbatim>\<open>computeQpConductance\<close>
  on any state, and for \<^verbatim>\<open>computeQpProperties\<close> whenever \<^verbatim>\<open>computeGapValues\<close>
  returns with \<^verbatim>\<open>_has_info\<close> false.
\<close>

theorem no_contact_outputs_zero:
  "(\<not> has_info s \<longrightarrow>
      gap_conductance (computeQpConductance s) (qp s) = 0 \<and>
      gap_conductance_dT (computeQpConductance s) (qp s) = 0) \<and>
   (\<forall>s1. computeGapValues s = Inr s1 \<and> \<not> has_info s1 \<longrightarrow>
      (\<exists>s2. computeQpProperties s = Inr s2 \<and>
            gap_conductance s2 (qp s) = 0 \<and> gap_conductance_dT s2 (qp s) = 0))"
proof (intro conjI allI impI)
  assume "\<not> has_info s"
  then show "gap_conductance (computeQpConductance s) (qp s) = 0"
    and "gap_conductance_dT (computeQpConductance s) (qp s) = 0"
    by (simp_all add: computeQpConductance_no_info)
next
  fix s1
  assume a: "computeGapValues s = Inr s1 \<and> \<not> has_info s1"
  then have q: "qp s1 = qp s"
    by (simp add: computeGapValues_qp)
  have "computeQpProperties s = Inr (computeQpConductance s1)"
    using a by (simp add: computeQpProperties_def)
  moreover have "gap_conductance (computeQpConductance s1) (qp s) = 0"
    using a q by (simp add: computeQpConductance_no_info)
  moreover have "gap_conductance_dT (computeQpConductance s1) (qp s) = 0"
    using a q by (simp add: computeQpConductance_no_info)
  ultimately show "\<exists>s2. computeQpProperties s = Inr s2 \<and>
            gap_conductance s2 (qp s) = 0 \<and> gap_conductance_dT s2 (qp s) = 0"
    by simp
qed

text \<open>Quadrature mode with no match under axisymmetric coordinates: the geometry
  is CYLINDER and both outputs are 0.\<close>

theorem no_contact_outputs_zero_witness:
  "map_sum id (\<lambda>s. (has_info s, gap_geometry_type s, gap_conductance s 0, gap_conductance_dT s 0))
     (evaluate_point (test_material quadrature_params COORD_RZ) (\<lambda>_. None) test_dof_map test_solution)
   = Inr (False, CYLINDER, 0, 0)"
proof -
  define s where
    "s = projr (setup_material (test_material quadrature_params COORD_RZ) (\<lambda>_. None)
                  test_dof_map test_solution)"
  define s1 where "s1 = projr (computeGapValues s)"
  have ready: "setup_material (test_material quadrature_params COORD_RZ) (\<lambda>_. None)
                 test_dof_map test_solution = Inr s"
    by (simp add: s_def config_defs)
  have q: "qp s = 0" and g: "gap_geometry_type s = CYLINDER"
    by (simp_all add: s_def config_defs)
  have gv: "computeGapValues s = Inr s1"
    by (simp add: s1_def s_def config_defs computeGapValues_def resolveGapValues_def
          computeGapRadii_def cyl_eval_pos Let_def)
  have ni: "\<not> has_info s1" and g1: "gap_geometry_type s1 = CYLINDER"
    by (simp_all add: s1_def s_def config_defs computeGapValues_def resolveGapValues_def
          computeGapRadii_def cyl_eval_pos Let_def)
  obtain s2 where s2: "computeQpProperties s = Inr s2"
      "gap_conductance s2 (qp s) = 0" "gap_conductance_dT s2 (qp s) = 0"
    using no_contact_outputs_zero [of s] gv ni by blast
  have "s2 = computeQpConductance s1"
    using s2(1) gv by (simp add: computeQpProperties_def)
  then have "\<not> has_info s2" and "gap_geometry_type s2 = CYLINDER"
    using ni g1 by (simp_all add: computeQpConductance_no_info)
  then show ?thesis
    using s2 q ready by (simp add: evaluate_point_def)
qed

text \<open>
  Claim C10. \<^verbatim>\<open>computeQpConductance\<close> writes the property
  \<^verbatim>\<open>gap_conductivity\<close> at the current point, to \<^verbatim>\<open>gapK()\<close>, when \<^verbatim>\<open>_has_info\<close> is
  true, and leaves the whole property as it was when \<^verbatim>\<open>_has_info\<close> is false;
  \<^verbatim>\<open>gapK()\<close> is the base conductivity times the value of the scaling function (1
  without one), taken at the coupled variable's value or else at the time; and
  without contact the conductance and the derivative are still written, to 0.
\<close>

theorem conductivity_property_written_iff_contact:
  "gap_thermal_conductivity (computeQpConductance s) =
     (if has_info s then (gap_thermal_conductivity s)(qp s := gapK s)
      else gap_thermal_conductivity s) \<and>
   gapK s =
     gap_conductivity s *
       (case gap_conductivity_function s of
          None \<Rightarrow> 1
        | Some f \<Rightarrow>
            f (case gap_conductivity_function_variable s of Some v \<Rightarrow> v (qp s) | None \<Rightarrow> t_time s)
              (q_point s (qp s))) \<and>
   (\<not> has_info s \<longrightarrow>
      gap_conductance (computeQpConductance s) = (gap_conductance s)(qp s := 0) \<and>
      gap_conductance_dT (computeQpConductance s) = (gap_conductance_dT s)(qp s := 0))"
proof (intro conjI impI)
  show "gap_thermal_conductivity (computeQpConductance s) =
     (if has_info s then (gap_thermal_conductivity s)(qp s := gapK s)
      else gap_thermal_conductivity s)"
    by (cases "has_info s") (simp_all add: computeQpConductance_info computeQpConductance_no_info)
  show "gapK s =
     gap_conductivity s *
       (case gap_conductivity_function s of
          None \<Rightarrow> 1
        | Some f \<Rightarrow>
            f (case gap_conductivity_function_variable s of Some v \<Rightarrow> v (qp s) | None \<Rightarrow> t_time s)
              (q_point s (qp s)))"
    by (simp add: gapK_def split: option.splits)
next
  assume "\<not> has_info s"
  then show "gap_conductance (computeQpConductance s) = (gap_conductance s)(qp s := 0)"
    and "gap_conductance_dT (computeQpConductance s) = (gap_conductance_dT s)(qp s := 0)"
    by (simp_all add: computeQpConductance_no_info)
qed

text \<open>Quadrature mode without a match (the property keeps its initial 0) and with
  one (the property is 1 at point 0 and untouched at point 1).\<close>

theorem conductivity_property_written_iff_contact_witness:
  "map_sum id (\<lambda>s. (has_info s, gap_thermal_conductivity s 0, gap_conductance s 0,
                      gap_conductance_dT s 0))
     (evaluate_point (test_material quadrature_params COORD_RZ) (\<lambda>_. None) test_dof_map test_solution)
     = Inr (False, 0, 0, 0) \<and>
   map_sum id (\<lambda>s. (has_info s, gap_thermal_conductivity s 0, gap_thermal_conductivity s 1))
     (evaluate_point (test_material quadrature_params COORD_RZ) matched_locator test_dof_map
        test_solution)
     = Inr (True, 1, 0)"
proof -
  define s where
    "s = projr (setup_material (test_material quadrature_params COORD_RZ) (\<lambda>_. None)
                  test_dof_map test_solution)"
  define s1 where "s1 = projr (computeGapValues s)"
  define u where
    "u = projr (setup_material (test_material quadrature_params COORD_RZ) matched_locator
                  test_dof_map test_solution)"
  define u1 where "u1 = projr (computeGapValues u)"
  have ready: "setup_material (test_material quadrature_params COORD_RZ) (\<lambda>_. None)
                 test_dof_map test_solution = Inr s"
      "setup_material (test_material quadrature_params COORD_RZ) matched_locator
                 test_dof_map test_solution = Inr u"
    by (simp_all add: s_def u_def config_defs)
  have gv: "computeGapValues s = Inr s1" "computeGapValues u = Inr u1"
    by (simp_all add: s1_def s_def u1_def u_def config_defs gap_values_defs resolveGapValues_def
          matched_locator_def)
  have vals: "\<not> has_info s1" "qp s1 = 0" "gap_thermal_conductivity s1 = (\<lambda>_. 0)"
      "gap_conductance s1 = (\<lambda>_. 0)" "gap_conductance_dT s1 = (\<lambda>_. 0)"
    by (simp_all add: s1_def s_def config_defs gap_values_defs resolveGapValues_def)
  have uvals: "has_info u1" "qp u1 = 0" "gap_thermal_conductivity u1 = (\<lambda>_. 0)"
      "gap_conductivity u1 = 1" "gap_conductivity_function u1 = None"
    by (simp_all add: u1_def u_def config_defs gap_values_defs resolveGapValues_def
          matched_locator_def)
  have ev: "evaluate_point (test_material quadrature_params COORD_RZ) (\<lambda>_. None) test_dof_map
              test_solution = Inr (computeQpConductance s1)"
      "evaluate_point (test_material quadrature_params COORD_RZ) matched_locator test_dof_map
              test_solution = Inr (computeQpConductance u1)"
    using ready gv by (simp_all add: evaluate_point_def computeQpProperties_def)
  have a: "gap_thermal_conductivity (computeQpConductance s1) 0 = 0 \<and>
           gap_conductance (computeQpConductance s1) 0 = 0 \<and>
           gap_conductance_dT (computeQpConductance s1) 0 = 0"
    using conductivity_property_written_iff_contact [of s1] vals by simp
  have b: "gap_thermal_conductivity (computeQpConductance u1) 0 = 1 \<and>
           gap_thermal_conductivity (computeQpConductance u1) 1 = 0"
    using conductivity_property_written_iff_contact [of u1] uvals by simp
  have "\<not> has_info (computeQpConductance s1)" and "has_info (computeQpConductance u1)"
    using vals uvals by (simp_all add: computeQpConductance_no_info computeQpConductance_info)
  then show ?thesis
    using ev a b by simp
qed

subsection \<open>The effective gap length and the conductance\<close>

text \<open>
  Claim C6. \<^verbatim>\<open>gapLength\<close> is the specification's clamp of \<open>r2 - r1\<close> for PLATE, of
  \<open>radius * ln (r2 / r1)\<close> for CYLINDER and of \<open>radius\<^sup>2 * (1/r1 - 1/r2)\<close> for
  SPHERE, between \<open>min_gap\<close> and \<open>max_gap\<close>; and at a point with contact the
  conductance written is \<^verbatim>\<open>gapK()\<close> divided by that length, plus the radiation term.
\<close>

theorem gap_length_and_conductance:
  "gapLength PLATE rad ra rb lo hi = spec_clamp (rb - ra) lo hi \<and>
   gapLength CYLINDER rad ra rb lo hi = spec_clamp (rad * ln (rb / ra)) lo hi \<and>
   gapLength SPHERE rad ra rb lo hi = spec_clamp (rad ^ 2 * (1 / ra - 1 / rb)) lo hi \<and>
   (has_info s \<longrightarrow>
      gap_conductance (computeQpConductance s) (qp s) =
        gapK s / gapLength (gap_geometry_type s) (radius s) (r1 s) (r2 s) (min_gap s) (max_gap s)
        + h_radiation s)"
proof (intro conjI impI)
  show "gapLength PLATE rad ra rb lo hi = spec_clamp (rb - ra) lo hi"
    by (simp add: gapLength_def gapRect_def spec_clamp_def)
  show "gapLength CYLINDER rad ra rb lo hi = spec_clamp (rad * ln (rb / ra)) lo hi"
    by (simp add: gapLength_def gapCyl_def spec_clamp_def)
  show "gapLength SPHERE rad ra rb lo hi = spec_clamp (rad ^ 2 * (1 / ra - 1 / rb)) lo hi"
    by (simp add: gapLength_def gapSphere_def spec_clamp_def)
next
  assume "has_info s"
  then show "gap_conductance (computeQpConductance s) (qp s) =
        gapK s / gapLength (gap_geometry_type s) (radius s) (r1 s) (r2 s) (min_gap s) (max_gap s)
        + h_radiation s"
    by (simp add: computeQpConductance_info)
qed

text \<open>The node-based configuration: a plate gap of 0.02 with conductivity 1 gives
  50, plus the radiation term 13.94574.\<close>

theorem gap_length_and_conductance_witness:
  "map_sum id (\<lambda>s. (has_info s, gap_geometry_type s, r1 s, r2 s, gap_conductance s 0))
     (evaluate_point (test_material node_based_params COORD_XYZ) (\<lambda>_. None) (\<lambda>_. []) (\<lambda>_. 0))
     = Inr (True, PLATE, 0, 2 / 100, 6394574 / 100000) \<and>
   gapLength PLATE 0 0 (2 / 100) (1 / 1000000) 1000000 = 2 / 100 \<and>
   gapLength CYLINDER 2 1 1 (1 / 1000000) 1000000 = 1 / 1000000 \<and>
   gapLength SPHERE 2 1 2 (1 / 1000000) 1000000 = 2"
proof -
  define s where
    "s = projr (setup_material (test_material node_based_params COORD_XYZ)
                  (\<lambda>_. None) (\<lambda>_. []) (\<lambda>_. 0))"
  define s1 where "s1 = projr (computeGapValues s)"
  have ready: "setup_material (test_material node_based_params COORD_XYZ)
                 (\<lambda>_. None) (\<lambda>_. []) (\<lambda>_. 0) = Inr s"
    by (simp add: s_def config_defs)
  have gv: "computeGapValues s = Inr s1"
    by (simp add: s1_def s_def config_defs computeGapValues_def resolveGapValues_def
          computeGapRadii_def)
  have vals: "has_info s1" "qp s1 = 0" "gap_geometry_type s1 = PLATE" "radius s1 = 0"
      "r1 s1 = 0" "r2 s1 = 2 / 100" "min_gap s1 = 1 / 1000000" "max_gap s1 = 1000000"
      "gapK s1 = 1" "h_radiation s1 = 1394574 / 100000"
    by (simp_all add: s1_def s_def config_defs computeGapValues_def resolveGapValues_def
          computeGapRadii_def gapK_def h_radiation_def)
  note T = gap_length_and_conductance [of 0 0 "2 / 100" "1 / 1000000" 1000000 s1]
  have len: "gapLength PLATE 0 0 (2 / 100) (1 / 1000000) 1000000 = 2 / 100"
    using T by (simp add: spec_clamp_def)
  have "gap_conductance (computeQpConductance s1) (qp s1) =
          gapK s1 / gapLength (gap_geometry_type s1) (radius s1) (r1 s1) (r2 s1) (min_gap s1) (max_gap s1)
          + h_radiation s1"
    using T vals(1) by blast
  then have "gap_conductance (computeQpConductance s1) 0 = 1 / (2 / 100) + 1394574 / 100000"
    by (simp only: vals len)
  then have cond: "gap_conductance (computeQpConductance s1) 0 = 6394574 / 100000"
    by simp
  have cyl: "gapLength CYLINDER 2 1 1 (1 / 1000000) 1000000 = 1 / 1000000"
    using gap_length_and_conductance [of 2 1 1 "1 / 1000000" 1000000 s1]
    by (simp add: spec_clamp_def)
  have sph: "gapLength SPHERE 2 1 2 (1 / 1000000) 1000000 = 2"
    using gap_length_and_conductance [of 2 1 2 "1 / 1000000" 1000000 s1]
    by (simp add: spec_clamp_def)
  have "evaluate_point (test_material node_based_params COORD_XYZ) (\<lambda>_. None) (\<lambda>_. []) (\<lambda>_. 0)
          = Inr (computeQpConductance s1)"
    using ready gv by (simp add: evaluate_point_def computeQpProperties_def)
  then show ?thesis
    using cond vals len cyl sph by (simp add: computeQpConductance_info)
qed

subsection \<open>The temperature derivative\<close>

lemma derivative_output_is_dh_conduction:
  "has_info s \<Longrightarrow>
   gap_conductance_dT (computeQpConductance s) (qp s) = dh_conduction s \<and> dh_conduction s = 0"
  by (simp add: computeQpConductance_info dh_conduction_def)

text \<open>
  Claim C1 at the node-based configuration (temperature 500, gap temperature 400,
  both emissivities 0.8, so \<open>Fe = 1.5\<close>): the point has contact, the derivative that
  \<^verbatim>\<open>computeQpConductance\<close> writes is 0, and \<^verbatim>\<open>dh_conduction() + dh_radiation()\<close> is
  \<open>742639 / 15000000\<close> there.
\<close>

theorem derivative_omits_radiation:
  "map_sum id (\<lambda>s. (has_info s, emissivity s, gap_conductance_dT s (qp s),
                      dh_conduction s + dh_radiation s))
     (evaluate_point (test_material node_based_params COORD_XYZ) (\<lambda>_. None) (\<lambda>_. []) (\<lambda>_. 0))
   = Inr (True, 3 / 2, 0, 742639 / 15000000)"
  by (simp add: config_defs point_defs Let_def)

subsection \<open>The radiation term\<close>

lemma emissivity_init_zero: "e1 = 0 \<or> e2 = 0 \<Longrightarrow> emissivity_init e1 e2 = 0"
  by (auto simp add: emissivity_init_def)

lemma emissivity_init_ge_one:
  assumes "0 < e1" "e1 \<le> 1" "0 < e2" "e2 \<le> 1"
  shows "emissivity_init e1 e2 = 1 / e1 + 1 / e2 - 1" and "1 \<le> emissivity_init e1 e2"
proof -
  show eq: "emissivity_init e1 e2 = 1 / e1 + 1 / e2 - 1"
    using assms by (simp add: emissivity_init_def)
  have "1 \<le> 1 / e1" and "1 \<le> 1 / e2"
    using assms by simp_all
  then show "1 \<le> emissivity_init e1 e2"
    using eq by linarith
qed

lemma GapConductance_ctor_emissivity:
  "GapConductance_ctor m locator dof_map solution = Inr s \<Longrightarrow>
   emissivity s = emissivity_init (par_emissivity_1 (pars m)) (par_emissivity_2 (pars m))"
  by (auto simp add: GapConductance_ctor_def Let_def split: if_splits)

lemma checkParams_emissivity_range:
  assumes "checkParams params = Inr ()"
  shows "0 \<le> par_emissivity_1 params" "par_emissivity_1 params \<le> 1"
    "0 \<le> par_emissivity_2 params" "par_emissivity_2 params \<le> 1"
  using assms by (auto simp add: checkParams_def rangeCheckFailures_def split: if_splits)

lemma dh_radiation_formula:
  "emissivity s \<noteq> 0 \<Longrightarrow>
   dh_radiation s =
     stefan_boltzmann s *
       (3 * temp s (qp s) * temp s (qp s) + gap_temp s * (2 * temp s (qp s) + gap_temp s))
     / emissivity s"
  by (simp add: dh_radiation_def Let_def)

text \<open>
  Claim C3. Let \<^verbatim>\<open>_emissivity\<close> be what the constructor initialises it to from the
  parameters \<^verbatim>\<open>emissivity_1\<close> and \<^verbatim>\<open>emissivity_2\<close>. If either parameter is 0
  then \<open>Fe = 0\<close> and both \<^verbatim>\<open>h_radiation()\<close> and \<^verbatim>\<open>dh_radiation()\<close> are 0,
  whatever the temperatures. Otherwise, for parameters that pass the range checks,
  \<open>Fe = 1/e1 + 1/e2 - 1\<close>, which is not 0, and \<^verbatim>\<open>h_radiation()\<close> is
  \<open>sigma * (T\<^sup>2 + Tg\<^sup>2) * (T + Tg) / Fe\<close>.
\<close>

theorem radiation_term:
  assumes "GapConductance_ctor m locator dof_map solution = Inr s0"
    and "emissivity s = emissivity s0"
  shows
    "(par_emissivity_1 (pars m) = 0 \<or> par_emissivity_2 (pars m) = 0 \<longrightarrow>
        emissivity s = 0 \<and> h_radiation s = 0 \<and> dh_radiation s = 0) \<and>
     (checkParams (pars m) = Inr () \<and>
      par_emissivity_1 (pars m) \<noteq> 0 \<and> par_emissivity_2 (pars m) \<noteq> 0 \<longrightarrow>
        emissivity s = 1 / par_emissivity_1 (pars m) + 1 / par_emissivity_2 (pars m) - 1 \<and>
        emissivity s \<noteq> 0 \<and>
        h_radiation s =
          stefan_boltzmann s *
            ((temp s (qp s) * temp s (qp s) + gap_temp s * gap_temp s) * (temp s (qp s) + gap_temp s))
          / (1 / par_emissivity_1 (pars m) + 1 / par_emissivity_2 (pars m) - 1))"
proof -
  let ?e1 = "par_emissivity_1 (pars m)" and ?e2 = "par_emissivity_2 (pars m)"
  have init: "emissivity s = emissivity_init ?e1 ?e2"
    using assms by (simp add: GapConductance_ctor_emissivity)
  show ?thesis
  proof (intro conjI impI)
    assume "?e1 = 0 \<or> ?e2 = 0"
    then show fe: "emissivity s = 0"
      using init by (simp add: emissivity_init_zero)
    show "h_radiation s = 0"
      using fe by (simp add: h_radiation_def)
    show "dh_radiation s = 0"
      using fe by (simp add: dh_radiation_def)
  next
    assume r: "checkParams (pars m) = Inr () \<and> ?e1 \<noteq> 0 \<and> ?e2 \<noteq> 0"
    then have pos: "0 < ?e1" "?e1 \<le> 1" "0 < ?e2" "?e2 \<le> 1"
      using checkParams_emissivity_range [of "pars m"] by simp_all
    show fe: "emissivity s = 1 / ?e1 + 1 / ?e2 - 1"
      using init pos by (simp add: emissivity_init_ge_one(1))
    have "1 \<le> emissivity s"
      using init pos by (simp add: emissivity_init_ge_one(2))
    then show nz: "emissivity s \<noteq> 0"
      by simp
    show "h_radiation s =
            stefan_boltzmann s *
              ((temp s (qp s) * temp s (qp s) + gap_temp s * gap_temp s) * (temp s (qp s) + gap_temp s))
            / (1 / ?e1 + 1 / ?e2 - 1)"
      using nz by (simp add: h_radiation_def Let_def fe [symmetric])
  qed
qed

text \<open>The node-based configuration, and the same with the second emissivity 0.\<close>

theorem radiation_term_witness:
  "map_sum id (\<lambda>s. (emissivity s, temp s (qp s), gap_temp s, h_radiation s))
     (evaluate_point (test_material node_based_params COORD_XYZ) (\<lambda>_. None) (\<lambda>_. []) (\<lambda>_. 0))
     = Inr (3 / 2, 500, 400, 1394574 / 100000) \<and>
   map_sum id (\<lambda>s. (emissivity s, h_radiation s, dh_radiation s))
     (evaluate_point
        (test_material (node_based_params\<lparr>par_emissivity_2 := 0\<rparr>) COORD_XYZ)
        (\<lambda>_. None) (\<lambda>_. []) (\<lambda>_. 0))
     = Inr (0, 0, 0)"
proof -
  let ?m = "test_material node_based_params COORD_XYZ"
  let ?m' = "test_material (node_based_params\<lparr>par_emissivity_2 := 0\<rparr>) COORD_XYZ"
  define s0 where "s0 = projr (GapConductance_ctor ?m (\<lambda>_. None) (\<lambda>_. []) (\<lambda>_. 0))"
  define s where "s = projr (evaluate_point ?m (\<lambda>_. None) (\<lambda>_. []) (\<lambda>_. 0))"
  define s0' where "s0' = projr (GapConductance_ctor ?m' (\<lambda>_. None) (\<lambda>_. []) (\<lambda>_. 0))"
  define s' where "s' = projr (evaluate_point ?m' (\<lambda>_. None) (\<lambda>_. []) (\<lambda>_. 0))"
  have ctor: "GapConductance_ctor ?m (\<lambda>_. None) (\<lambda>_. []) (\<lambda>_. 0) = Inr s0"
      "GapConductance_ctor ?m' (\<lambda>_. None) (\<lambda>_. []) (\<lambda>_. 0) = Inr s0'"
    by (simp_all add: s0_def s0'_def config_defs)
  have ev: "evaluate_point ?m (\<lambda>_. None) (\<lambda>_. []) (\<lambda>_. 0) = Inr s"
      "evaluate_point ?m' (\<lambda>_. None) (\<lambda>_. []) (\<lambda>_. 0) = Inr s'"
    by (simp_all add: s_def s'_def config_defs point_defs)
  have same: "emissivity s = emissivity s0" "emissivity s' = emissivity s0'"
    by (simp_all add: s_def s0_def s'_def s0'_def config_defs point_defs)
  have pars: "checkParams (pars ?m) = Inr ()" "par_emissivity_1 (pars ?m) = 8 / 10"
      "par_emissivity_2 (pars ?m) = 8 / 10" "par_emissivity_2 (pars ?m') = 0"
    by (simp_all add: config_defs)
  have vals: "temp s (qp s) = 500" "gap_temp s = 400" "stefan_boltzmann s = 5669 / 100000000000"
    by (simp_all add: s_def config_defs point_defs)
  have "emissivity s = 3 / 2 \<and> h_radiation s = 1394574 / 100000"
    using radiation_term [OF ctor(1) same(1)] pars vals by simp
  moreover have "emissivity s' = 0 \<and> h_radiation s' = 0 \<and> dh_radiation s' = 0"
    using radiation_term [OF ctor(2) same(2)] pars by simp
  ultimately show ?thesis
    using ev vals by simp
qed

subsection \<open>Gap values in quadrature mode\<close>

lemma fold_upt_sum:
  "fold (\<lambda>i acc. acc + f i) [0 ..< n] (a :: real) = a + (\<Sum>i<n. f i)"
  by (induction n) simp_all

lemma gap_temp_loop_sum:
  "gap_temp_loop phi dofs sol a = a + (\<Sum>i<length dofs. phi ! i ! 0 * sol (dofs ! i))"
  by (simp add: gap_temp_loop_def fold_upt_sum)

text \<open>
  Claim C8, in quadrature mode. Without a match for the quadrature node, the first
  part of \<^verbatim>\<open>computeGapValues\<close> changes the state in exactly this: \<^verbatim>\<open>_gap_temp\<close> is 0,
  \<^verbatim>\<open>_gap_distance\<close> is 88888, \<^verbatim>\<open>_has_info\<close> is false, and one warning with the
  node's id and coordinate is emitted if \<^verbatim>\<open>_warnings\<close> is set, none otherwise. It
  is not fatal: \<^verbatim>\<open>computeGapValues\<close> fails exactly when \<^verbatim>\<open>computeGapRadii\<close> fails
  on the sentinel distance, and for PLATE the evaluation of the point always
  returns. With a match whose weights cover the opposing element's indices,
  \<^verbatim>\<open>_has_info\<close> is true, \<^verbatim>\<open>_gap_distance\<close> is the match's distance, nothing is
  emitted, and \<^verbatim>\<open>_gap_temp\<close> is the sum over the indices of weight times solution
  value.
\<close>

theorem quadrature_gap_values:
  assumes "quadrature s"
  shows
    "(penetration_info s (node_id (quadrature_node s (qp s))) = None \<longrightarrow>
        resolveGapValues s =
          s\<lparr>gap_temp := 0, gap_distance := 88888, has_info := False,
            console := console s @
              (if warnings s
               then [NoGapValueInformation (node_id (quadrature_node s (qp s))) (processor_id s)
                       (node_point (quadrature_node s (qp s)))]
               else [])\<rparr> \<and>
        isl (computeGapValues s) =
          isl (computeGapRadii (gap_geometry_type s) (q_point s (qp s)) (p1 s) (p2 s) 88888
                 (normals s (qp s))) \<and>
        (gap_geometry_type s = PLATE \<longrightarrow> \<not> isl (computeQpProperties s))) \<and>
     (\<forall>pinfo. penetration_info s (node_id (quadrature_node s (qp s))) = Some pinfo \<and>
        length (dof_indices s (side pinfo)) \<le> length (side_phi pinfo) \<and>
        (\<forall>i < length (dof_indices s (side pinfo)). side_phi pinfo ! i \<noteq> []) \<longrightarrow>
        has_info (resolveGapValues s) \<and>
        gap_distance (resolveGapValues s) = distance pinfo \<and>
        console (resolveGapValues s) = console s \<and>
        gap_temp (resolveGapValues s) =
          (\<Sum>i < length (dof_indices s (side pinfo)).
             side_phi pinfo ! i ! 0 * serialized_solution s (dof_indices s (side pinfo) ! i)))"
proof (intro conjI allI impI)
  assume n: "penetration_info s (node_id (quadrature_node s (qp s))) = None"
  show r: "resolveGapValues s =
          s\<lparr>gap_temp := 0, gap_distance := 88888, has_info := False,
            console := console s @
              (if warnings s
               then [NoGapValueInformation (node_id (quadrature_node s (qp s))) (processor_id s)
                       (node_point (quadrature_node s (qp s)))]
               else [])\<rparr>"
    using assms n by (simp add: resolveGapValues_def Let_def)
  show i: "isl (computeGapValues s) =
          isl (computeGapRadii (gap_geometry_type s) (q_point s (qp s)) (p1 s) (p2 s) 88888
                 (normals s (qp s)))"
    by (simp add: computeGapValues_def r Let_def split: sum.splits)
  show "\<not> isl (computeQpProperties s)" if "gap_geometry_type s = PLATE"
  proof -
    have "\<not> isl (computeGapValues s)"
      using that by (simp add: i computeGapRadii_def)
    then show ?thesis
      by (cases "computeGapValues s") (simp_all add: computeQpProperties_def)
  qed
next
  fix pinfo
  assume m: "penetration_info s (node_id (quadrature_node s (qp s))) = Some pinfo \<and>
        length (dof_indices s (side pinfo)) \<le> length (side_phi pinfo) \<and>
        (\<forall>i < length (dof_indices s (side pinfo)). side_phi pinfo ! i \<noteq> [])"
  show "has_info (resolveGapValues s)"
    and "gap_distance (resolveGapValues s) = distance pinfo"
    and "console (resolveGapValues s) = console s"
    using assms m by (simp_all add: resolveGapValues_def Let_def)
  show "gap_temp (resolveGapValues s) =
          (\<Sum>i < length (dof_indices s (side pinfo)).
             side_phi pinfo ! i ! 0 * serialized_solution s (dof_indices s (side pinfo) ! i))"
    using assms m by (simp add: resolveGapValues_def Let_def gap_temp_loop_sum)
qed

text \<open>No match with warnings on and off, and the match of node 7:
  \<open>0.25 * 300 + 0.75 * 400 = 375\<close>.\<close>

theorem quadrature_gap_values_witness:
  "map_sum id (\<lambda>s. (has_info s, gap_distance s, gap_temp s, console s))
     (evaluate_point (test_material quadrature_params COORD_RZ) (\<lambda>_. None) test_dof_map test_solution)
     = Inr (False, 88888, 0, [NoGapValueInformation 7 0 (Point 2 5 0)]) \<and>
   map_sum id (\<lambda>s. (has_info s, gap_distance s, gap_temp s, console s))
     (evaluate_point (test_material (quadrature_params\<lparr>par_warnings := False\<rparr>) COORD_RZ)
        (\<lambda>_. None) test_dof_map test_solution)
     = Inr (False, 88888, 0, []) \<and>
   map_sum id (\<lambda>s. (has_info s, gap_distance s, gap_temp s, console s))
     (evaluate_point (test_material quadrature_params COORD_RZ) matched_locator test_dof_map
        test_solution)
     = Inr (True, - (1 / 2), 375, [])"
proof -
  let ?obs = "\<lambda>s. (has_info s, gap_distance s, gap_temp s, console s)"
  define s where
    "s = projr (setup_material (test_material quadrature_params COORD_RZ) (\<lambda>_. None)
                  test_dof_map test_solution)"
  define t where
    "t = projr (setup_material (test_material (quadrature_params\<lparr>par_warnings := False\<rparr>) COORD_RZ)
                  (\<lambda>_. None) test_dof_map test_solution)"
  define u where
    "u = projr (setup_material (test_material quadrature_params COORD_RZ) matched_locator
                  test_dof_map test_solution)"
  define P where "P = \<lparr> distance = - (1 / 2), side = 3, side_phi = [[1 / 4], [3 / 4 :: real]] \<rparr>"
  have ev: "evaluate_point (test_material quadrature_params COORD_RZ) (\<lambda>_. None) test_dof_map
              test_solution = computeQpProperties s"
      "evaluate_point (test_material (quadrature_params\<lparr>par_warnings := False\<rparr>) COORD_RZ)
              (\<lambda>_. None) test_dof_map test_solution = computeQpProperties t"
      "evaluate_point (test_material quadrature_params COORD_RZ) matched_locator test_dof_map
              test_solution = computeQpProperties u"
    by (simp_all add: s_def t_def u_def config_defs)
  have run: "computeQpProperties s = Inr (projr (computeQpProperties s))"
      "computeQpProperties t = Inr (projr (computeQpProperties t))"
      "computeQpProperties u = Inr (projr (computeQpProperties u))"
    by (simp_all add: s_def t_def u_def config_defs computeQpProperties_def gap_values_defs
          resolveGapValues_def matched_locator_def)
  have sq: "quadrature s" "penetration_info s (node_id (quadrature_node s (qp s))) = None"
      "warnings s" "console s = []" "node_id (quadrature_node s (qp s)) = 7"
      "node_point (quadrature_node s (qp s)) = Point 2 5 0" "processor_id s = 0"
    by (simp_all add: s_def config_defs)
  have tq: "quadrature t" "penetration_info t (node_id (quadrature_node t (qp t))) = None"
      "\<not> warnings t" "console t = []"
    by (simp_all add: t_def config_defs)
  have uq: "quadrature u" "penetration_info u (node_id (quadrature_node u (qp u))) = Some P"
      "console u = []" "dof_indices u (side P) = [10, 11]" "serialized_solution u = test_solution"
    by (simp_all add: u_def P_def config_defs matched_locator_def test_dof_map_def)
  have rs: "?obs (resolveGapValues s) = (False, 88888, 0, [NoGapValueInformation 7 0 (Point 2 5 0)])"
    using quadrature_gap_values [OF sq(1)] sq by simp
  have rt: "?obs (resolveGapValues t) = (False, 88888, 0, [])"
    using quadrature_gap_values [OF tq(1)] tq by simp
  have wf: "length (dof_indices u (side P)) \<le> length (side_phi P) \<and>
            (\<forall>i < length (dof_indices u (side P)). side_phi P ! i \<noteq> [])"
    by (simp add: uq(4)) (simp add: P_def less_Suc_eq)
  have "has_info (resolveGapValues u) \<and> gap_distance (resolveGapValues u) = distance P \<and>
        console (resolveGapValues u) = console u \<and>
        gap_temp (resolveGapValues u) =
          (\<Sum>i < length (dof_indices u (side P)).
             side_phi P ! i ! 0 * serialized_solution u (dof_indices u (side P) ! i))"
    using quadrature_gap_values [OF uq(1)] uq(2) wf by blast
  then have ru: "?obs (resolveGapValues u) = (True, - (1 / 2), 375, [])"
    by (simp add: uq eval_nat_numeral test_solution_def) (simp add: P_def)
  obtain s2 t2 u2 where fin: "computeQpProperties s = Inr s2" "computeQpProperties t = Inr t2"
      "computeQpProperties u = Inr u2"
    using run by blast
  have "?obs s2 = ?obs (resolveGapValues s)" "?obs t2 = ?obs (resolveGapValues t)"
      "?obs u2 = ?obs (resolveGapValues u)"
    using fin by (simp_all add: computeQpProperties_gap_values)
  then show ?thesis
    by (simp only: ev fin rs rt ru) simp
qed

end
